theory Spec2Isabelle
  imports Complex_Main "HOL-Library.Word" "HOL-Library.Log_Nat"
begin

section \<open>Strings and the error stream\<close>

text \<open>
  A \<open>const char *\<close> is modelled by the characters before its terminator, a
  \<open>std::string\<close> by its characters. \<open>c_str\<close> is what a reader of
  \<open>s.c_str()\<close> sees: the characters up to the first NUL.
\<close>

definition NUL :: char where
  "NUL = CHR 0x00"

definition c_str :: "string \<Rightarrow> string" where
  "c_str s = takeWhile (\<lambda>c. c \<noteq> NUL) s"

text \<open>Decimal rendering of an \<open>int\<close>, as \<open>%i\<close> prints it.\<close>

fun show_nat :: "nat \<Rightarrow> string" where
  "show_nat n =
     (if n < 10 then [''0123456789'' ! n]
      else show_nat (n div 10) @ [''0123456789'' ! (n mod 10)])"

definition show_int :: "int \<Rightarrow> string" where
  "show_int i = (if i < 0 then ''-'' @ show_nat (nat (- i)) else show_nat (nat i))"

text \<open>
  What is fixed when the header is compiled: whether \<open>CEPTON_ENABLE_EXCEPTIONS\<close> is
  defined, the value of \<open>__FILE__\<close>, and the values of \<open>__LINE__\<close> at the two uses of
  \<open>CEPTON_RUNTIME_ASSERT\<close> (in the constructor and in the destructor of SensorError).
\<close>

record build =
  CEPTON_ENABLE_EXCEPTIONS :: bool
  FILE :: string
  LINE_ctor :: int
  LINE_dtor :: int

text \<open>
  A call either returns, with the error stream as it left it and its result, or ends
  the process in \<open>std::terminate\<close>, with the error stream as it was then. The error
  stream is the list of the strings written to \<open>stderr\<close>, oldest first.
\<close>

datatype 'a exec = Returns "string list" 'a | Terminated "string list"

definition throw_runtime_assert ::
  "build \<Rightarrow> string \<Rightarrow> int \<Rightarrow> string \<Rightarrow> string \<Rightarrow> string list \<Rightarrow> unit exec" where
  "throw_runtime_assert b file line condition msg err =
     (let err' =
        (if msg = []
         then err @ [''AssertionError (file '' @ [CHR 0x22] @ file @ [CHR 0x22] @ '', line ''
                      @ show_int line @ '', condition '' @ [CHR 0x22] @ condition
                      @ [CHR 0x22] @ '')'' @ [CHR 0x0A]]
         else err @ [''AssertionError (file '' @ [CHR 0x22] @ file @ [CHR 0x22] @ '', line ''
                      @ show_int line @ '', condition '' @ [CHR 0x22] @ condition
                      @ [CHR 0x22] @ ''):'' @ [CHR 0x0A, CHR 0x09] @ msg @ [CHR 0x0A]])
      in if CEPTON_ENABLE_EXCEPTIONS b then Terminated err' else Returns err' ())"

definition CEPTON_RUNTIME_ASSERT ::
  "build \<Rightarrow> int \<Rightarrow> bool \<Rightarrow> string \<Rightarrow> string \<Rightarrow> string list \<Rightarrow> unit exec" where
  "CEPTON_RUNTIME_ASSERT b line condition condition_text msg err =
     (if \<not> condition then throw_runtime_assert b (FILE b) line condition_text msg err
      else Returns err ())"

section \<open>Error codes\<close>

type_synonym SensorErrorCode = int

text \<open>
  Modelled from the spec: the enumerator \<open>CEPTON_SUCCESS\<close> of \<open>cepton_sdk.h\<close>, a header
  that is not part of the sources. The spec calls Success "the unique zero value", and
  the comment of \<open>operator bool\<close> agrees with it.
\<close>

definition CEPTON_SUCCESS :: SensorErrorCode where
  "CEPTON_SUCCESS = 0"

text \<open>
  The C functions of \<open>cepton_sdk.h\<close> that classify and name an error code. Their
  bodies are in the SDK library, so they are parameters of the model.
\<close>

record sdk =
  cepton_get_error_code_name :: "SensorErrorCode \<Rightarrow> string"
  cepton_is_error_code :: "SensorErrorCode \<Rightarrow> int"
  cepton_is_fault_code :: "SensorErrorCode \<Rightarrow> int"

definition get_error_code_name :: "sdk \<Rightarrow> SensorErrorCode \<Rightarrow> string" where
  "get_error_code_name k error_code = cepton_get_error_code_name k error_code"

definition is_error_code :: "sdk \<Rightarrow> SensorErrorCode \<Rightarrow> bool" where
  "is_error_code k error_code = (cepton_is_error_code k error_code \<noteq> 0)"

definition is_fault_code :: "sdk \<Rightarrow> SensorErrorCode \<Rightarrow> bool" where
  "is_fault_code k error_code = (cepton_is_fault_code k error_code \<noteq> 0)"

section \<open>SensorError\<close>

text \<open>
  \<open>Used\<close> is the nested class that records whether an error was checked; its field
  \<open>value\<close> is \<open>used_value\<close> here. \<open>what\<close> is the message held by the base class
  \<open>std::runtime_error\<close>.
\<close>

record Used =
  used_value :: bool

record SensorError =
  what :: string
  m_code :: SensorErrorCode
  m_msg :: string
  m_used :: Used

text \<open>
  The members of SensorError are \<open>const\<close> and write \<open>m_used\<close> through \<open>mutable\<close>, and
  the copy operations write to the object they copy from. So the objects live in a
  store, addressed by references, and two references may be equal.
\<close>

type_synonym ref = nat
type_synonym store = "ref \<Rightarrow> SensorError"

definition Used_default :: Used where
  "Used_default = \<lparr>used_value = False\<rparr>"

text \<open>\<open>m_used.value = true\<close>, on one SensorError.\<close>

definition set_used :: "SensorError \<Rightarrow> SensorError" where
  "set_used e = e\<lparr>m_used := (m_used e)\<lparr>used_value := True\<rparr>\<rparr>"

text \<open>
  The four copy and move operations of \<open>Used\<close>. Each one writes \<open>other.value\<close> and
  nothing else. A constructor gives the new \<open>Used\<close>, whose \<open>value\<close> keeps its default
  member initialiser, and the other object as it is left. An assignment writes nothing
  to \<open>*this\<close>, so it gives only the other object as it is left (which is \<open>*this\<close>
  when the two are the same object).
\<close>

definition Used_copy_ctor :: "Used \<Rightarrow> Used \<times> Used" where
  "Used_copy_ctor other = (Used_default, other\<lparr>used_value := True\<rparr>)"

definition Used_move_ctor :: "Used \<Rightarrow> Used \<times> Used" where
  "Used_move_ctor other = (Used_default, other\<lparr>used_value := True\<rparr>)"

definition Used_copy_assign :: "Used \<Rightarrow> Used" where
  "Used_copy_assign other = other\<lparr>used_value := True\<rparr>"

definition Used_move_assign :: "Used \<Rightarrow> Used" where
  "Used_move_assign other = other\<lparr>used_value := True\<rparr>"

definition create_message :: "sdk \<Rightarrow> SensorErrorCode \<Rightarrow> string \<Rightarrow> string" where
  "create_message k code msg =
     (if code = 0 then ''''
      else let code_name = get_error_code_name k code
           in if msg = [] then code_name else code_name @ '': '' @ msg)"

definition SensorError_ctor ::
  "build \<Rightarrow> sdk \<Rightarrow> SensorErrorCode \<Rightarrow> string \<Rightarrow> string list \<Rightarrow> SensorError exec" where
  "SensorError_ctor b k code' msg' err =
     (let this = \<lparr>what = c_str (create_message k code' msg'), m_code = code',
                  m_msg = msg', m_used = Used_default\<rparr>
      in case CEPTON_RUNTIME_ASSERT b (LINE_ctor b)
                (get_error_code_name k (m_code this) \<noteq> [])
                (''get_error_code_name(m_code)[0] != '' @ [CHR 0x27, CHR 0x5C] @ ''0''
                   @ [CHR 0x27])
                ''Invalid error code!'' err of
           Terminated err' \<Rightarrow> Terminated err'
         | Returns err' _ \<Rightarrow> Returns err' this)"

definition SensorError_ctor_code ::
  "build \<Rightarrow> sdk \<Rightarrow> SensorErrorCode \<Rightarrow> string list \<Rightarrow> SensorError exec" where
  "SensorError_ctor_code b k code' err = SensorError_ctor b k code' '''' err"

definition SensorError_ctor_default ::
  "build \<Rightarrow> sdk \<Rightarrow> string list \<Rightarrow> SensorError exec" where
  "SensorError_ctor_default b k err = SensorError_ctor_code b k CEPTON_SUCCESS err"

text \<open>The destructor, run on the object as it is when its lifetime ends.\<close>

definition SensorError_dtor :: "build \<Rightarrow> SensorError \<Rightarrow> string list \<Rightarrow> unit exec" where
  "SensorError_dtor b this err =
     CEPTON_RUNTIME_ASSERT b (LINE_dtor b)
       (m_code this = 0 \<or> used_value (m_used this))
       ''!m_code || m_used.value'' ''Error not checked!'' err"

text \<open>Whether a call reached \<open>throw_runtime_assert\<close>: it wrote to the error stream.\<close>

fun stderr_of :: "'a exec \<Rightarrow> string list" where
  "stderr_of (Returns err _) = err"
| "stderr_of (Terminated err) = err"

fun terminated :: "'a exec \<Rightarrow> bool" where
  "terminated (Returns _ _) = False"
| "terminated (Terminated _) = True"

definition defects :: "string list \<Rightarrow> 'a exec \<Rightarrow> nat" where
  "defects err r = length (stderr_of r) - length err"

text \<open>
  The const members, on the object at \<open>this\<close>. Each gives its result and the store as
  it leaves it.
\<close>

definition ignore :: "ref \<Rightarrow> store \<Rightarrow> store" where
  "ignore this s = s(this := set_used (s this))"

definition msg :: "ref \<Rightarrow> store \<Rightarrow> string \<times> store" where
  "msg this s = (let s' = s(this := set_used (s this)) in (m_msg (s' this), s'))"

definition code :: "ref \<Rightarrow> store \<Rightarrow> SensorErrorCode \<times> store" where
  "code this s = (let s' = s(this := set_used (s this)) in (m_code (s' this), s'))"

definition operator_SensorErrorCode :: "ref \<Rightarrow> store \<Rightarrow> SensorErrorCode \<times> store" where
  "operator_SensorErrorCode this s = code this s"

definition operator_bool :: "ref \<Rightarrow> store \<Rightarrow> bool \<times> store" where
  "operator_bool this s = (let (c, s') = code this s in (c \<noteq> 0, s'))"

definition name :: "sdk \<Rightarrow> ref \<Rightarrow> store \<Rightarrow> string \<times> store" where
  "name k this s = (let (c, s') = code this s in (get_error_code_name k c, s'))"

definition is_error :: "sdk \<Rightarrow> ref \<Rightarrow> store \<Rightarrow> bool \<times> store" where
  "is_error k this s = (let (c, s') = code this s in (is_error_code k c, s'))"

definition is_fault :: "sdk \<Rightarrow> ref \<Rightarrow> store \<Rightarrow> bool \<times> store" where
  "is_fault k this s = (let (c, s') = code this s in (is_fault_code k c, s'))"

text \<open>
  SensorError declares a destructor and no copy or move operation, so the compiler
  gives it a copy constructor and a copy assignment that work member by member, in the
  order of declaration, and no move operation: \<open>SensorError b(std::move(a))\<close> and
  \<open>b = std::move(a)\<close> select the copy operations too.

  The copy constructor gives the new object and the store in which \<open>other\<close> is as the
  constructor of \<open>Used\<close> left it.
\<close>

definition SensorError_copy_ctor :: "ref \<Rightarrow> store \<Rightarrow> SensorError \<times> store" where
  "SensorError_copy_ctor other s =
     (let (u, u_other) = Used_copy_ctor (m_used (s other))
      in (\<lparr>what = what (s other), m_code = m_code (s other), m_msg = m_msg (s other),
           m_used = u\<rparr>,
          s(other := (s other)\<lparr>m_used := u_other\<rparr>)))"

text \<open>\<open>*this = other\<close> between two objects of the store, which may be the same one.\<close>

definition SensorError_copy_assign :: "ref \<Rightarrow> ref \<Rightarrow> store \<Rightarrow> store" where
  "SensorError_copy_assign this other s =
     (let s1 = s(this := (s this)\<lparr>what := what (s other)\<rparr>);
          s2 = s1(this := (s1 this)\<lparr>m_code := m_code (s1 other)\<rparr>);
          s3 = s2(this := (s2 this)\<lparr>m_msg := m_msg (s2 other)\<rparr>)
      in s3(other := (s3 other)\<lparr>m_used := Used_copy_assign (m_used (s3 other))\<rparr>))"

text \<open>
  \<open>*this = tmp\<close> where \<open>tmp\<close> is a temporary, which is no object of the store: the
  same assignment, giving the store and the temporary as it is left.
\<close>

definition SensorError_copy_assign_temp ::
  "ref \<Rightarrow> SensorError \<Rightarrow> store \<Rightarrow> store \<times> SensorError" where
  "SensorError_copy_assign_temp this tmp s =
     (let s1 = s(this := (s this)\<lparr>what := what tmp\<rparr>);
          s2 = s1(this := (s1 this)\<lparr>m_code := m_code tmp\<rparr>);
          s3 = s2(this := (s2 this)\<lparr>m_msg := m_msg tmp\<rparr>)
      in (s3, tmp\<lparr>m_used := Used_copy_assign (m_used tmp)\<rparr>))"

section \<open>SensorErrorWrapper\<close>

text \<open>
  The member \<open>error\<close> is an object of the store, named by its reference; the field
  \<open>context\<close> is \<open>wcontext\<close> here.
\<close>

record SensorErrorWrapper =
  wcontext :: string
  error :: ref

text \<open>The constructor, building the member \<open>error\<close> at the reference \<open>p\<close>.\<close>

definition SensorErrorWrapper_ctor ::
  "build \<Rightarrow> sdk \<Rightarrow> string \<Rightarrow> ref \<Rightarrow> store \<Rightarrow> string list
     \<Rightarrow> (SensorErrorWrapper \<times> store) exec" where
  "SensorErrorWrapper_ctor b k context' p s err =
     (case SensorError_ctor_default b k err of
        Terminated err1 \<Rightarrow> Terminated err1
      | Returns err1 e \<Rightarrow> Returns err1 (\<lparr>wcontext = context', error = p\<rparr>, s(p := e)))"

text \<open>
  \<open>operator=(const SensorError &error_)\<close>. The temporary built on the right of
  \<open>error = ...\<close> is destroyed at the end of that statement.
\<close>

definition SensorErrorWrapper_assign ::
  "build \<Rightarrow> sdk \<Rightarrow> SensorErrorWrapper \<Rightarrow> ref \<Rightarrow> store \<Rightarrow> string list \<Rightarrow> store exec" where
  "SensorErrorWrapper_assign b k w error' s err =
     (let (t, s1) = operator_bool error' s
      in if \<not> t then
           (case SensorError_ctor_default b k err of
              Terminated err1 \<Rightarrow> Terminated err1
            | Returns err1 tmp \<Rightarrow>
                (let (s2, tmp') = SensorError_copy_assign_temp (error w) tmp s1
                 in case SensorError_dtor b tmp' err1 of
                      Terminated err2 \<Rightarrow> Terminated err2
                    | Returns err2 _ \<Rightarrow> Returns err2 s2))
         else
           (let (m, s2) = msg error' s1;
                msg0 = wcontext w @ [CHR 0x0A, CHR 0x09] @ m;
                (c, s3) = code error' s2
            in case SensorError_ctor b k c (c_str msg0) err of
                 Terminated err1 \<Rightarrow> Terminated err1
               | Returns err1 tmp \<Rightarrow>
                   (let (s4, tmp') = SensorError_copy_assign_temp (error w) tmp s3
                    in case SensorError_dtor b tmp' err1 of
                         Terminated err2 \<Rightarrow> Terminated err2
                       | Returns err2 _ \<Rightarrow> Returns err2 s4)))"

section \<open>Single-precision floats\<close>

text \<open>
  The C++ type \<open>float\<close>, as IEEE 754 binary32 with the default rounding and expressions
  evaluated in their own type. \<open>Finite m e\<close> is the number \<open>m * 2^e\<close>; the sign of a
  zero and the payload of a NaN are not represented. The flag of \<open>Infinity\<close> is true for
  the negative one.
\<close>

datatype cfloat = Finite int int | Infinity bool | NaN

definition dyadic :: "int \<Rightarrow> int \<Rightarrow> real" where
  "dyadic m e = of_int m * 2 powi e"

text \<open>
  Rounding of the exact value \<open>m * 2^e\<close> to the nearest binary32, ties to even: \<open>k\<close>
  low bits are dropped so that 24 bits remain and the exponent is not below that of
  the subnormals; a result of \<open>2^128\<close> or more overflows.
\<close>

definition f32_round :: "int \<Rightarrow> int \<Rightarrow> cfloat" where
  "f32_round m e =
     (let k = nat (max 0 (max (bitlen \<bar>m\<bar> - 24) (- 149 - e)));
          q = \<bar>m\<bar> div 2 ^ k;
          r = \<bar>m\<bar> mod 2 ^ k;
          q' = (if 2 ^ k < 2 * r \<or> (2 * r = 2 ^ k \<and> odd q) then q + 1 else q)
      in if 128 < bitlen q' + (e + int k) then Infinity (m < 0)
         else Finite (sgn m * q') (e + int k))"

fun f32_mul :: "cfloat \<Rightarrow> cfloat \<Rightarrow> cfloat" where
  "f32_mul (Finite m1 e1) (Finite m2 e2) = f32_round (m1 * m2) (e1 + e2)"
| "f32_mul (Finite m1 e1) (Infinity n) = (if m1 = 0 then NaN else Infinity ((m1 < 0) \<noteq> n))"
| "f32_mul (Infinity n) (Finite m2 e2) = (if m2 = 0 then NaN else Infinity (n \<noteq> (m2 < 0)))"
| "f32_mul (Infinity n1) (Infinity n2) = Infinity (n1 \<noteq> n2)"
| "f32_mul NaN _ = NaN"
| "f32_mul _ NaN = NaN"

fun f32_add :: "cfloat \<Rightarrow> cfloat \<Rightarrow> cfloat" where
  "f32_add (Finite m1 e1) (Finite m2 e2) =
     f32_round (m1 * 2 ^ nat (e1 - min e1 e2) + m2 * 2 ^ nat (e2 - min e1 e2)) (min e1 e2)"
| "f32_add (Finite m1 e1) (Infinity n) = Infinity n"
| "f32_add (Infinity n) (Finite m2 e2) = Infinity n"
| "f32_add (Infinity n1) (Infinity n2) = (if n1 = n2 then Infinity n1 else NaN)"
| "f32_add NaN _ = NaN"
| "f32_add _ NaN = NaN"

text \<open>The integer part of \<open>m * 2^e\<close>, towards zero.\<close>

definition trunc_dyadic :: "int \<Rightarrow> int \<Rightarrow> int" where
  "trunc_dyadic m e = (if 0 \<le> e then m * 2 ^ nat e else sgn m * (\<bar>m\<bar> div 2 ^ nat (- e)))"

text \<open>
  The conversion \<open>uint64_t(x)\<close> of a float: the fractional part is discarded, and the
  behaviour is undefined (\<open>None\<close>) when the result does not fit the type.
\<close>

fun uint64_of_float :: "cfloat \<Rightarrow> 64 word option" where
  "uint64_of_float (Finite m e) =
     (let t = trunc_dyadic m e
      in if 0 \<le> t \<and> t < 2 ^ 64 then Some (word_of_int t) else None)"
| "uint64_of_float (Infinity n) = None"
| "uint64_of_float NaN = None"

text \<open>The number a float stands for, when it is finite.\<close>

fun float_value :: "cfloat \<Rightarrow> real" where
  "float_value (Finite m e) = dyadic m e"
| "float_value (Infinity n) = 0"
| "float_value NaN = 0"

fun f32_less :: "cfloat \<Rightarrow> cfloat \<Rightarrow> bool" where
  "f32_less (Finite m1 e1) (Finite m2 e2) =
     (m1 * 2 ^ nat (e1 - min e1 e2) < m2 * 2 ^ nat (e2 - min e1 e2))"
| "f32_less (Finite m1 e1) (Infinity n) = (\<not> n)"
| "f32_less (Infinity n) (Finite m2 e2) = n"
| "f32_less (Infinity n1) (Infinity n2) = (n1 \<and> \<not> n2)"
| "f32_less NaN _ = False"
| "f32_less _ NaN = False"

section \<open>Capture replay\<close>

text \<open>
  The C functions of \<open>cepton_sdk.h\<close> behind the replay functions. Their bodies are in
  the SDK library, so they are parameters of the model, over a type \<open>'d\<close> of states of
  the library. The getters read that state; the others change it.
\<close>

record 'd driver =
  cepton_sdk_get_error :: "'d \<Rightarrow> (SensorErrorCode \<times> string) \<times> 'd"
  cepton_sdk_capture_replay_get_start_time :: "'d \<Rightarrow> 64 word"
  cepton_sdk_capture_replay_get_position :: "'d \<Rightarrow> cfloat"
  cepton_sdk_capture_replay_seek :: "cfloat \<Rightarrow> 'd \<Rightarrow> 'd"

definition get_error ::
  "build \<Rightarrow> sdk \<Rightarrow> 'd driver \<Rightarrow> 'd \<Rightarrow> string list \<Rightarrow> (SensorError \<times> 'd) exec" where
  "get_error b k api d err =
     (let ((error_code, error_msg), d') = cepton_sdk_get_error api d
      in case SensorError_ctor b k error_code error_msg err of
           Terminated err' \<Rightarrow> Terminated err'
         | Returns err' e \<Rightarrow> Returns err' (e, d'))"

definition get_start_time :: "'d driver \<Rightarrow> 'd \<Rightarrow> 64 word" where
  "get_start_time api d = cepton_sdk_capture_replay_get_start_time api d"

definition get_position :: "'d driver \<Rightarrow> 'd \<Rightarrow> cfloat" where
  "get_position api d = cepton_sdk_capture_replay_get_position api d"

definition get_time :: "'d driver \<Rightarrow> 'd \<Rightarrow> 64 word option" where
  "get_time api d =
     (case uint64_of_float (f32_mul (Finite 1000000 0) (get_position api d)) of
        None \<Rightarrow> None
      | Some u \<Rightarrow> Some (get_start_time api d + u))"

definition seek ::
  "build \<Rightarrow> sdk \<Rightarrow> 'd driver \<Rightarrow> cfloat \<Rightarrow> 'd \<Rightarrow> string list \<Rightarrow> (SensorError \<times> 'd) exec" where
  "seek b k api position d err =
     (let d1 = cepton_sdk_capture_replay_seek api position d
      in get_error b k api d1 err)"

definition seek_relative ::
  "build \<Rightarrow> sdk \<Rightarrow> 'd driver \<Rightarrow> cfloat \<Rightarrow> 'd \<Rightarrow> string list \<Rightarrow> (SensorError \<times> 'd) exec" where
  "seek_relative b k api position d err =
     (let position1 = f32_add position (get_position api d);
          d1 = cepton_sdk_capture_replay_seek api position1 d
      in get_error b k api d1 err)"

text \<open>
  The formula of the specification for \<open>get_time\<close>, in its words: the start time plus
  the position times 1000000, rounded, in microseconds.
\<close>

definition spec_get_time :: "64 word \<Rightarrow> real \<Rightarrow> 64 word" where
  "spec_get_time start_time position = start_time + word_of_int (round (position * 1000000))"

section \<open>Concrete instances\<close>

text \<open>
  A build, an SDK and a store on which the model is run. The build has no
  \<open>CEPTON_ENABLE_EXCEPTIONS\<close>; \<open>strict_build\<close> has it. The SDK names two codes and
  returns the empty string for every other one. The store holds at reference 0 an
  error that was not checked, at reference 1 an error that was, and a success
  everywhere else.
\<close>

definition example_build :: build where
  "example_build =
     \<lparr>CEPTON_ENABLE_EXCEPTIONS = False, FILE = ''cepton_sdk.hpp'', LINE_ctor = 139,
      LINE_dtor = 146\<rparr>"

definition strict_build :: build where
  "strict_build = example_build\<lparr>CEPTON_ENABLE_EXCEPTIONS := True\<rparr>"

definition example_sdk :: sdk where
  "example_sdk =
     \<lparr>cepton_get_error_code_name =
        (\<lambda>c. if c = 0 then ''CEPTON_SUCCESS''
             else if c = - 8 then ''CEPTON_ERROR_INVALID_ARGUMENTS'' else []),
      cepton_is_error_code = (\<lambda>c. if c = - 8 then 1 else 0),
      cepton_is_fault_code = (\<lambda>c. 0)\<rparr>"

definition unchecked_error :: SensorError where
  "unchecked_error =
     \<lparr>what = ''CEPTON_ERROR_INVALID_ARGUMENTS: bad position'', m_code = - 8,
      m_msg = ''bad position'', m_used = \<lparr>used_value = False\<rparr>\<rparr>"

definition checked_error :: SensorError where
  "checked_error = unchecked_error\<lparr>m_used := \<lparr>used_value = True\<rparr>\<rparr>"

definition success_error :: SensorError where
  "success_error = \<lparr>what = [], m_code = 0, m_msg = [], m_used = \<lparr>used_value = False\<rparr>\<rparr>"

definition example_store :: store where
  "example_store = (\<lambda>r. success_error)(0 := unchecked_error, 1 := checked_error)"

definition example_wrapper :: SensorErrorWrapper where
  "example_wrapper = \<lparr>wcontext = ''replay'', error = 3\<rparr>"

text \<open>
  Modelled from the spec: an open replay session and the driver's functions on it,
  which are in the SDK library and not in the sources. The session has a fixed start
  timestamp, a length and a position in seconds; \<open>seek\<close> "fails if position outside
  [0, length); otherwise sets current position exactly", and a failure is left as the
  last error, which \<open>cepton_sdk_get_error\<close> "returns and clears". The code of that
  error is the one \<open>example_sdk\<close> names.
\<close>

record session =
  replay_start_time :: "64 word"
  replay_length :: cfloat
  replay_position :: cfloat
  replay_error :: "SensorErrorCode \<times> string"

definition session_seek :: "cfloat \<Rightarrow> session \<Rightarrow> session" where
  "session_seek p d =
     (if \<not> f32_less p (Finite 0 0) \<and> f32_less p (replay_length d)
      then d\<lparr>replay_position := p\<rparr>
      else d\<lparr>replay_error := (- 8, ''bad position'')\<rparr>)"

definition session_driver :: "session driver" where
  "session_driver =
     \<lparr>cepton_sdk_get_error = (\<lambda>d. (replay_error d, d\<lparr>replay_error := (0, [])\<rparr>)),
      cepton_sdk_capture_replay_get_start_time = replay_start_time,
      cepton_sdk_capture_replay_get_position = replay_position,
      cepton_sdk_capture_replay_seek = session_seek\<rparr>"

text \<open>
  A capture of 10 seconds that began at 1600000000 seconds of Unix time, at the
  position 5 seconds, and the same capture at the position \<open>1 + 2^-20\<close> seconds.
\<close>

definition example_session :: session where
  "example_session =
     \<lparr>replay_start_time = 1600000000000000, replay_length = Finite 10 0,
      replay_position = Finite 5 0, replay_error = (0, [])\<rparr>"

definition offset_session :: session where
  "offset_session = example_session\<lparr>replay_position := Finite 1048577 (- 20)\<rparr>"

section \<open>Destruction\<close>

lemma throw_runtime_assert_stderr:
  "length (stderr_of (throw_runtime_assert b fl line condition mg err)) = Suc (length err)"
  by (simp add: throw_runtime_assert_def Let_def)

lemma throw_runtime_assert_terminated:
  "terminated (throw_runtime_assert b fl line condition mg err) = CEPTON_ENABLE_EXCEPTIONS b"
  by (simp add: throw_runtime_assert_def Let_def)

lemma defects_throw_runtime_assert:
  "defects err (throw_runtime_assert b fl line condition mg err) = 1"
  by (simp add: defects_def throw_runtime_assert_stderr)

lemma defects_CEPTON_RUNTIME_ASSERT:
  "defects err (CEPTON_RUNTIME_ASSERT b line c ct mg err) = (if c then 0 else 1)"
  by (simp add: CEPTON_RUNTIME_ASSERT_def defects_throw_runtime_assert) (simp add: defects_def)

lemma terminated_CEPTON_RUNTIME_ASSERT:
  "terminated (CEPTON_RUNTIME_ASSERT b line c ct mg err) = (\<not> c \<and> CEPTON_ENABLE_EXCEPTIONS b)"
  by (simp add: CEPTON_RUNTIME_ASSERT_def throw_runtime_assert_terminated)

lemma CEPTON_RUNTIME_ASSERT_holds:
  "c \<Longrightarrow> CEPTON_RUNTIME_ASSERT b line c ct mg err = Returns err ()"
  by (simp add: CEPTON_RUNTIME_ASSERT_def)

lemma stderr_CEPTON_RUNTIME_ASSERT:
  "take (length err) (stderr_of (CEPTON_RUNTIME_ASSERT b line c ct mg err)) = err"
  by (simp add: CEPTON_RUNTIME_ASSERT_def throw_runtime_assert_def Let_def)

lemma SensorError_ctor_Returns:
  "SensorError_ctor b k c mg err = Returns err1 e \<Longrightarrow>
     e = \<lparr>what = c_str (create_message k c mg), m_code = c, m_msg = mg, m_used = Used_default\<rparr>"
  by (auto simp: SensorError_ctor_def Let_def split: exec.splits)

lemma SensorError_ctor_default_m_code:
  "SensorError_ctor_default b k err = Returns err1 e \<Longrightarrow> m_code e = 0"
  by (auto simp: SensorError_ctor_default_def SensorError_ctor_code_def CEPTON_SUCCESS_def
      dest: SensorError_ctor_Returns)

text \<open>
  C1. Destroying a SensorError reaches \<open>throw_runtime_assert\<close> exactly when its code
  is not Success and it was not marked as used, and then once: one diagnostic is
  added to the error stream, the one of the assertion "Error not checked!", and the
  process ends exactly when the build defines \<open>CEPTON_ENABLE_EXCEPTIONS\<close>. Otherwise the destructor returns and the error stream
  is as it was; that is so for every error marked as used and for every
  default-constructed error.
\<close>

theorem SensorError_dtor_defect:
  "defects err (SensorError_dtor b e err) =
     (if m_code e \<noteq> CEPTON_SUCCESS \<and> \<not> used_value (m_used e) then 1 else 0)
   \<and> take (length err) (stderr_of (SensorError_dtor b e err)) = err
   \<and> terminated (SensorError_dtor b e err) =
       (m_code e \<noteq> CEPTON_SUCCESS \<and> \<not> used_value (m_used e) \<and> CEPTON_ENABLE_EXCEPTIONS b)
   \<and> (m_code e = CEPTON_SUCCESS \<or> used_value (m_used e)
        \<longrightarrow> SensorError_dtor b e err = Returns err ())
   \<and> SensorError_dtor b (set_used e) err = Returns err ()
   \<and> (\<forall>err0 err1 d. SensorError_ctor_default b k err0 = Returns err1 d
        \<longrightarrow> SensorError_dtor b d err = Returns err ())
   \<and> (m_code e \<noteq> CEPTON_SUCCESS \<and> \<not> used_value (m_used e) \<longrightarrow>
        stderr_of (SensorError_dtor b e err) =
          err @ [''AssertionError (file '' @ [CHR 0x22] @ FILE b @ [CHR 0x22] @ '', line ''
                 @ show_int (LINE_dtor b) @ '', condition '' @ [CHR 0x22]
                 @ ''!m_code || m_used.value'' @ [CHR 0x22] @ ''):'' @ [CHR 0x0A, CHR 0x09]
                 @ ''Error not checked!'' @ [CHR 0x0A]])"
proof -
  have 1: "defects err (SensorError_dtor b e err) =
     (if m_code e \<noteq> CEPTON_SUCCESS \<and> \<not> used_value (m_used e) then 1 else 0)"
    by (simp add: SensorError_dtor_def defects_CEPTON_RUNTIME_ASSERT CEPTON_SUCCESS_def)
  have 2: "take (length err) (stderr_of (SensorError_dtor b e err)) = err"
    by (simp add: SensorError_dtor_def stderr_CEPTON_RUNTIME_ASSERT)
  have 3: "terminated (SensorError_dtor b e err) =
       (m_code e \<noteq> CEPTON_SUCCESS \<and> \<not> used_value (m_used e) \<and> CEPTON_ENABLE_EXCEPTIONS b)"
    by (simp add: SensorError_dtor_def terminated_CEPTON_RUNTIME_ASSERT CEPTON_SUCCESS_def)
  have 4: "m_code e = CEPTON_SUCCESS \<or> used_value (m_used e)
        \<longrightarrow> SensorError_dtor b e err = Returns err ()"
    by (simp add: SensorError_dtor_def CEPTON_RUNTIME_ASSERT_holds CEPTON_SUCCESS_def)
  have 5: "SensorError_dtor b (set_used e) err = Returns err ()"
    by (simp add: SensorError_dtor_def CEPTON_RUNTIME_ASSERT_holds set_used_def)
  have 6: "\<forall>err0 err1 d. SensorError_ctor_default b k err0 = Returns err1 d
        \<longrightarrow> SensorError_dtor b d err = Returns err ()"
    by (auto simp: SensorError_ctor_default_m_code SensorError_dtor_def CEPTON_RUNTIME_ASSERT_holds)
  have 7: "m_code e \<noteq> CEPTON_SUCCESS \<and> \<not> used_value (m_used e) \<longrightarrow>
        stderr_of (SensorError_dtor b e err) =
          err @ [''AssertionError (file '' @ [CHR 0x22] @ FILE b @ [CHR 0x22] @ '', line ''
                 @ show_int (LINE_dtor b) @ '', condition '' @ [CHR 0x22]
                 @ ''!m_code || m_used.value'' @ [CHR 0x22] @ ''):'' @ [CHR 0x0A, CHR 0x09]
                 @ ''Error not checked!'' @ [CHR 0x0A]]"
    by (simp add: SensorError_dtor_def CEPTON_RUNTIME_ASSERT_def throw_runtime_assert_def
        CEPTON_SUCCESS_def Let_def)
  from 1 2 3 4 5 6 7 show ?thesis by blast
qed

theorem SensorError_dtor_defect_witness:
  "defects [] (SensorError_dtor strict_build unchecked_error []) = 1
   \<and> terminated (SensorError_dtor strict_build unchecked_error [])
   \<and> defects [] (SensorError_dtor example_build unchecked_error []) = 1
   \<and> \<not> terminated (SensorError_dtor example_build unchecked_error [])
   \<and> SensorError_dtor strict_build checked_error [] = Returns [] ()
   \<and> SensorError_ctor_default strict_build example_sdk [] = Returns [] success_error
   \<and> SensorError_dtor strict_build success_error [] = Returns [] ()
   \<and> SensorError_dtor example_build unchecked_error [] =
       Returns [''AssertionError (file '' @ [CHR 0x22] @ ''cepton_sdk.hpp'' @ [CHR 0x22]
                @ '', line 146, condition '' @ [CHR 0x22] @ ''!m_code || m_used.value''
                @ [CHR 0x22] @ ''):'' @ [CHR 0x0A, CHR 0x09] @ ''Error not checked!''
                @ [CHR 0x0A]] ()"
proof -
  have c: "SensorError_ctor_default strict_build example_sdk [] = Returns [] success_error"
    by (simp add: SensorError_ctor_default_def SensorError_ctor_code_def SensorError_ctor_def
        CEPTON_SUCCESS_def CEPTON_RUNTIME_ASSERT_def get_error_code_name_def example_sdk_def
        success_error_def create_message_def c_str_def Used_default_def)
  have u: "m_code unchecked_error \<noteq> CEPTON_SUCCESS \<and> \<not> used_value (m_used unchecked_error)"
    by (simp add: unchecked_error_def CEPTON_SUCCESS_def)
  have k: "used_value (m_used checked_error)"
    by (simp add: checked_error_def)
  have s: "CEPTON_ENABLE_EXCEPTIONS strict_build \<and> \<not> CEPTON_ENABLE_EXCEPTIONS example_build"
    by (simp add: strict_build_def example_build_def)
  have l: "show_int (LINE_dtor example_build) = ''146''" "FILE example_build = ''cepton_sdk.hpp''"
    by (simp_all add: example_build_def show_int_def)
  note t = SensorError_dtor_defect [of "[]" example_build unchecked_error example_sdk]
  from t u s have r: "\<not> terminated (SensorError_dtor example_build unchecked_error [])"
    by simp
  from t u have "stderr_of (SensorError_dtor example_build unchecked_error []) =
       [''AssertionError (file '' @ [CHR 0x22] @ ''cepton_sdk.hpp'' @ [CHR 0x22]
                @ '', line 146, condition '' @ [CHR 0x22] @ ''!m_code || m_used.value''
                @ [CHR 0x22] @ ''):'' @ [CHR 0x0A, CHR 0x09] @ ''Error not checked!''
                @ [CHR 0x0A]]"
    by (simp add: l)
  with r have d: "SensorError_dtor example_build unchecked_error [] =
       Returns [''AssertionError (file '' @ [CHR 0x22] @ ''cepton_sdk.hpp'' @ [CHR 0x22]
                @ '', line 146, condition '' @ [CHR 0x22] @ ''!m_code || m_used.value''
                @ [CHR 0x22] @ ''):'' @ [CHR 0x0A, CHR 0x09] @ ''Error not checked!''
                @ [CHR 0x0A]] ()"
    by (cases "SensorError_dtor example_build unchecked_error []") simp_all
  have "defects [] (SensorError_dtor strict_build unchecked_error []) = 1
   \<and> terminated (SensorError_dtor strict_build unchecked_error [])
   \<and> defects [] (SensorError_dtor example_build unchecked_error []) = 1
   \<and> \<not> terminated (SensorError_dtor example_build unchecked_error [])
   \<and> SensorError_dtor strict_build checked_error [] = Returns [] ()
   \<and> SensorError_ctor_default strict_build example_sdk [] = Returns [] success_error
   \<and> SensorError_dtor strict_build success_error [] = Returns [] ()"
    using SensorError_dtor_defect [of "[]" strict_build unchecked_error example_sdk]
      SensorError_dtor_defect [of "[]" example_build unchecked_error example_sdk]
      SensorError_dtor_defect [of "[]" strict_build checked_error example_sdk]
      SensorError_dtor_defect [of "[]" strict_build success_error example_sdk]
      c u k s
    by simp
  with d show ?thesis by blast
qed

section \<open>Copying and assigning\<close>

lemma SensorError_dtor_used:
  "used_value (m_used e) \<Longrightarrow> SensorError_dtor b e err = Returns err ()"
  by (simp add: SensorError_dtor_def CEPTON_RUNTIME_ASSERT_holds)

lemma SensorError_dtor_success:
  "m_code e = 0 \<Longrightarrow> SensorError_dtor b e err = Returns err ()"
  by (simp add: SensorError_dtor_def CEPTON_RUNTIME_ASSERT_holds)

lemma used_set_used: "used_value (m_used (set_used e))"
  by (simp add: set_used_def)

lemma SensorError_copy_ctor_eq:
  "SensorError_copy_ctor a s = ((s a)\<lparr>m_used := Used_default\<rparr>, s(a := set_used (s a)))"
  by (simp add: SensorError_copy_ctor_def Used_copy_ctor_def set_used_def)

lemma SensorError_copy_assign_source:
  "SensorError_copy_assign d a s a = set_used (s a)"
  by (simp add: SensorError_copy_assign_def Let_def Used_copy_assign_def set_used_def)

lemma SensorError_copy_assign_target:
  "d \<noteq> a \<Longrightarrow> SensorError_copy_assign d a s d =
      (s d)\<lparr>what := what (s a), m_code := m_code (s a), m_msg := m_msg (s a)\<rparr>"
  by (simp add: SensorError_copy_assign_def Let_def Used_copy_assign_def)

lemma SensorError_copy_assign_other:
  "r \<noteq> a \<Longrightarrow> r \<noteq> d \<Longrightarrow> SensorError_copy_assign d a s r = s r"
  by (simp add: SensorError_copy_assign_def Let_def Used_copy_assign_def)

text \<open>
  C2. Copy construction from the error at \<open>a\<close> and assignment from it (to any object
  \<open>d\<close>, itself included) leave \<open>a\<close> marked as used, whatever its code, so that its
  destructor then returns with nothing written. The move operations of \<open>Used\<close> mark
  their source as the copy operations do, and SensorError has no move operation of
  its own. The new object of a copy construction holds the fields of \<open>a\<close> and is not
  marked.
\<close>

theorem copy_marks_source:
  "fst (SensorError_copy_ctor a s) = (s a)\<lparr>m_used := Used_default\<rparr>
   \<and> used_value (m_used (snd (SensorError_copy_ctor a s) a))
   \<and> SensorError_dtor b (snd (SensorError_copy_ctor a s) a) err = Returns err ()
   \<and> used_value (m_used (SensorError_copy_assign d a s a))
   \<and> SensorError_dtor b (SensorError_copy_assign d a s a) err = Returns err ()
   \<and> used_value (snd (Used_copy_ctor u)) \<and> used_value (snd (Used_move_ctor u))
   \<and> used_value (Used_copy_assign u) \<and> used_value (Used_move_assign u)"
  by (simp add: SensorError_copy_ctor_eq SensorError_copy_assign_source used_set_used
      SensorError_dtor_used Used_copy_ctor_def Used_move_ctor_def Used_copy_assign_def
      Used_move_assign_def)

theorem copy_marks_source_witness:
  "m_code (example_store 0) = - 8 \<and> \<not> used_value (m_used (example_store 0))
   \<and> SensorError_dtor strict_build (snd (SensorError_copy_ctor 0 example_store) 0) [] = Returns [] ()
   \<and> SensorError_dtor strict_build (SensorError_copy_assign 1 0 example_store 0) [] = Returns [] ()
   \<and> SensorError_dtor strict_build (SensorError_copy_assign 0 0 example_store 0) [] = Returns [] ()"
  using copy_marks_source [of 0 example_store strict_build "[]" 1]
    copy_marks_source [of 0 example_store strict_build "[]" 0]
  by (simp add: example_store_def unchecked_error_def)

text \<open>
  C3. Assignment \<open>d = a\<close> does not write the flag of the destination: for two different
  objects the \<open>m_used\<close> of \<open>d\<close> is what it was. So a destination that was marked as used
  stays marked, takes the code and the message of \<open>a\<close>, and its destructor returns
  with nothing written, also when \<open>a\<close> is an unchecked error.
\<close>

theorem assign_keeps_target_flag:
  "(d \<noteq> a \<longrightarrow> m_used (SensorError_copy_assign d a s d) = m_used (s d))
   \<and> (used_value (m_used (s d)) \<longrightarrow>
        used_value (m_used (SensorError_copy_assign d a s d))
        \<and> m_code (SensorError_copy_assign d a s d) = m_code (s a)
        \<and> m_msg (SensorError_copy_assign d a s d) = m_msg (s a)
        \<and> SensorError_dtor b (SensorError_copy_assign d a s d) err = Returns err ())"
proof (cases "d = a")
  case True
  then show ?thesis
    by (simp add: SensorError_copy_assign_source used_set_used SensorError_dtor_used)
      (simp add: set_used_def)
next
  case False
  then show ?thesis
    by (simp add: SensorError_copy_assign_target SensorError_dtor_used)
qed

theorem assign_keeps_target_flag_witness:
  "(1::nat) \<noteq> 0 \<and> used_value (m_used (example_store 1))
   \<and> m_code (example_store 0) = - 8 \<and> \<not> used_value (m_used (example_store 0))
   \<and> m_used (SensorError_copy_assign 1 0 example_store 1) = m_used (example_store 1)
   \<and> m_code (SensorError_copy_assign 1 0 example_store 1) = - 8
   \<and> SensorError_dtor strict_build (SensorError_copy_assign 1 0 example_store 1) [] = Returns [] ()"
  using assign_keeps_target_flag [of 1 0 example_store strict_build "[]"]
  by (simp add: example_store_def unchecked_error_def checked_error_def)

section \<open>Reading an error\<close>

lemma code_eq: "code a s = (m_code (s a), s(a := set_used (s a)))"
  by (simp add: code_def Let_def set_used_def)

lemma msg_eq: "msg a s = (m_msg (s a), s(a := set_used (s a)))"
  by (simp add: msg_def Let_def set_used_def)

lemma operator_bool_eq: "operator_bool a s = (m_code (s a) \<noteq> 0, s(a := set_used (s a)))"
  by (simp add: operator_bool_def code_eq)

text \<open>
  C4, as stated, fails: \<open>is_error\<close> and \<open>is_fault\<close> read the code through \<open>code()\<close>,
  which marks the error. On the unchecked error at reference 0 the flag after either
  call differs from the flag before.
\<close>

theorem is_error_keeps_flag_counterexample:
  "m_used (snd (is_error example_sdk 0 example_store) 0) \<noteq> m_used (example_store 0)
   \<and> m_used (snd (is_fault example_sdk 0 example_store) 0) \<noteq> m_used (example_store 0)"
  by (simp add: is_error_def is_fault_def code_eq set_used_def example_store_def unchecked_error_def)

text \<open>
  C4, amended. \<open>is_error\<close> and \<open>is_fault\<close> return the classification of the wrapped code
  by \<open>is_error_code\<close> and \<open>is_fault_code\<close>, and mark the error as used; nothing else in
  the store changes.
\<close>

theorem is_error_acknowledges:
  "is_error k a s = (is_error_code k (m_code (s a)), s(a := set_used (s a)))
   \<and> is_fault k a s = (is_fault_code k (m_code (s a)), s(a := set_used (s a)))
   \<and> used_value (m_used (snd (is_error k a s) a))
   \<and> used_value (m_used (snd (is_fault k a s) a))"
  by (simp add: is_error_def is_fault_def code_eq used_set_used)

theorem is_error_acknowledges_witness:
  "fst (is_error example_sdk 0 example_store) \<and> \<not> fst (is_fault example_sdk 0 example_store)
   \<and> \<not> used_value (m_used (example_store 0))
   \<and> used_value (m_used (snd (is_error example_sdk 0 example_store) 0))
   \<and> used_value (m_used (snd (is_fault example_sdk 0 example_store) 0))"
proof -
  note t = is_error_acknowledges [of example_sdk 0 example_store]
  have e: "is_error_code example_sdk (m_code (example_store 0))"
    by (simp add: example_store_def unchecked_error_def is_error_code_def example_sdk_def)
  have f: "\<not> is_fault_code example_sdk (m_code (example_store 0))"
    by (simp add: is_fault_code_def example_sdk_def)
  have u: "\<not> used_value (m_used (example_store 0))"
    by (simp add: example_store_def unchecked_error_def)
  from t e have 1: "fst (is_error example_sdk 0 example_store)" by simp
  from t f have 2: "\<not> fst (is_fault example_sdk 0 example_store)" by simp
  from t u 1 2 show ?thesis by blast
qed

text \<open>
  C5. \<open>code()\<close> returns the wrapped code, \<open>msg()\<close> the stored message, and the
  conversion to \<open>bool\<close> whether the code is not Success; each of them marks the error
  as used and changes nothing else in the store.
\<close>

theorem reading_acknowledges:
  "code a s = (m_code (s a), s(a := set_used (s a)))
   \<and> msg a s = (m_msg (s a), s(a := set_used (s a)))
   \<and> operator_bool a s = (m_code (s a) \<noteq> CEPTON_SUCCESS, s(a := set_used (s a)))
   \<and> operator_SensorErrorCode a s = code a s
   \<and> used_value (m_used (snd (code a s) a))
   \<and> used_value (m_used (snd (msg a s) a))
   \<and> used_value (m_used (snd (operator_bool a s) a))"
  by (simp add: code_eq msg_eq operator_bool_eq used_set_used CEPTON_SUCCESS_def
      operator_SensorErrorCode_def)

theorem reading_acknowledges_witness:
  "\<not> used_value (m_used (example_store 0))
   \<and> fst (code 0 example_store) = - 8 \<and> fst (msg 0 example_store) = ''bad position''
   \<and> fst (operator_bool 0 example_store) \<and> \<not> fst (operator_bool 2 example_store)
   \<and> used_value (m_used (snd (code 0 example_store) 0))
   \<and> used_value (m_used (snd (msg 0 example_store) 0))
   \<and> used_value (m_used (snd (operator_bool 0 example_store) 0))"
proof -
  note t0 = reading_acknowledges [of 0 example_store]
  note t2 = reading_acknowledges [of 2 example_store]
  have c0: "m_code (example_store 0) = - 8" and m0: "m_msg (example_store 0) = ''bad position''"
    and u0: "\<not> used_value (m_used (example_store 0))"
    by (simp_all add: example_store_def unchecked_error_def)
  have c2: "m_code (example_store 2) = CEPTON_SUCCESS"
    by (simp add: example_store_def success_error_def CEPTON_SUCCESS_def)
  have n0: "m_code (example_store 0) \<noteq> CEPTON_SUCCESS"
    by (simp add: c0 CEPTON_SUCCESS_def)
  from t0 c0 have 1: "fst (code 0 example_store) = - 8" by simp
  from t0 m0 have 2: "fst (msg 0 example_store) = ''bad position''" by simp
  from t0 n0 have 3: "fst (operator_bool 0 example_store)" by simp
  from t2 c2 have 4: "\<not> fst (operator_bool 2 example_store)" by simp
  from t0 u0 1 2 3 4 show ?thesis by blast
qed

section \<open>Construction\<close>

lemma stderr_of_case_exec:
  "stderr_of (case x of Returns e u \<Rightarrow> Returns e (f u) | Terminated e \<Rightarrow> Terminated e) = stderr_of x"
  by (cases x) simp_all

lemma terminated_case_exec:
  "terminated (case x of Returns e u \<Rightarrow> Returns e (f u) | Terminated e \<Rightarrow> Terminated e) = terminated x"
  by (cases x) simp_all

lemma SensorError_ctor_stderr:
  "stderr_of (SensorError_ctor b k c mg err) =
     stderr_of (CEPTON_RUNTIME_ASSERT b (LINE_ctor b) (get_error_code_name k c \<noteq> [])
       (''get_error_code_name(m_code)[0] != '' @ [CHR 0x27, CHR 0x5C] @ ''0'' @ [CHR 0x27])
       ''Invalid error code!'' err)"
  by (simp add: SensorError_ctor_def Let_def stderr_of_case_exec)

lemma SensorError_ctor_terminated:
  "terminated (SensorError_ctor b k c mg err) =
     (get_error_code_name k c = [] \<and> CEPTON_ENABLE_EXCEPTIONS b)"
  by (simp add: SensorError_ctor_def Let_def terminated_case_exec terminated_CEPTON_RUNTIME_ASSERT)

lemma SensorError_ctor_defects:
  "defects err (SensorError_ctor b k c mg err) = (if get_error_code_name k c = [] then 1 else 0)"
  using defects_CEPTON_RUNTIME_ASSERT [of err b "LINE_ctor b" "get_error_code_name k c \<noteq> []"]
  by (simp add: defects_def SensorError_ctor_stderr)

lemma SensorError_ctor_valid:
  "get_error_code_name k c \<noteq> [] \<Longrightarrow>
   SensorError_ctor b k c mg err =
     Returns err \<lparr>what = c_str (create_message k c mg), m_code = c, m_msg = mg, m_used = Used_default\<rparr>"
  by (simp add: SensorError_ctor_def Let_def CEPTON_RUNTIME_ASSERT_holds)

text \<open>
  C9. The constructor reaches \<open>throw_runtime_assert\<close>, with the message
  "Invalid error code!", exactly when \<open>get_error_code_name\<close> of the code is the empty
  string: then one diagnostic is written and the process ends in a build with
  \<open>CEPTON_ENABLE_EXCEPTIONS\<close>. A constructor that returns with the error stream as it
  was has built an error whose code has a name.
\<close>

theorem ctor_invalid_code:
  "defects err (SensorError_ctor b k c mg err) = (if get_error_code_name k c = [] then 1 else 0)
   \<and> take (length err) (stderr_of (SensorError_ctor b k c mg err)) = err
   \<and> terminated (SensorError_ctor b k c mg err) =
       (get_error_code_name k c = [] \<and> CEPTON_ENABLE_EXCEPTIONS b)
   \<and> (\<forall>e. SensorError_ctor b k c mg err = Returns err e
        \<longrightarrow> m_code e = c \<and> get_error_code_name k (m_code e) \<noteq> [])
   \<and> (get_error_code_name k c \<noteq> [] \<longrightarrow>
        SensorError_ctor b k c mg err =
          Returns err \<lparr>what = c_str (create_message k c mg), m_code = c, m_msg = mg,
                       m_used = Used_default\<rparr>)
   \<and> (get_error_code_name k c = [] \<longrightarrow>
        stderr_of (SensorError_ctor b k c mg err) =
          err @ [''AssertionError (file '' @ [CHR 0x22] @ FILE b @ [CHR 0x22] @ '', line ''
                 @ show_int (LINE_ctor b) @ '', condition '' @ [CHR 0x22]
                 @ ''get_error_code_name(m_code)[0] != '' @ [CHR 0x27, CHR 0x5C] @ ''0''
                 @ [CHR 0x27] @ [CHR 0x22] @ ''):'' @ [CHR 0x0A, CHR 0x09]
                 @ ''Invalid error code!'' @ [CHR 0x0A]])"
proof -
  have 2: "take (length err) (stderr_of (SensorError_ctor b k c mg err)) = err"
    by (simp add: SensorError_ctor_stderr stderr_CEPTON_RUNTIME_ASSERT)
  have 4: "\<forall>e. SensorError_ctor b k c mg err = Returns err e
        \<longrightarrow> m_code e = c \<and> get_error_code_name k (m_code e) \<noteq> []"
  proof (intro allI impI)
    fix e assume r: "SensorError_ctor b k c mg err = Returns err e"
    then have "defects err (SensorError_ctor b k c mg err) = 0"
      by (simp add: defects_def)
    then have "get_error_code_name k c \<noteq> []"
      by (simp add: SensorError_ctor_defects split: if_splits)
    moreover from r have "m_code e = c"
      by (auto dest: SensorError_ctor_Returns)
    ultimately show "m_code e = c \<and> get_error_code_name k (m_code e) \<noteq> []" by simp
  qed
  note 1 = SensorError_ctor_defects [of err b k c mg]
  note 3 = SensorError_ctor_terminated [of b k c mg err]
  have 5: "get_error_code_name k c \<noteq> [] \<longrightarrow>
        SensorError_ctor b k c mg err =
          Returns err \<lparr>what = c_str (create_message k c mg), m_code = c, m_msg = mg,
                       m_used = Used_default\<rparr>"
    by (simp add: SensorError_ctor_valid)
  have 6: "get_error_code_name k c = [] \<longrightarrow>
        stderr_of (SensorError_ctor b k c mg err) =
          err @ [''AssertionError (file '' @ [CHR 0x22] @ FILE b @ [CHR 0x22] @ '', line ''
                 @ show_int (LINE_ctor b) @ '', condition '' @ [CHR 0x22]
                 @ ''get_error_code_name(m_code)[0] != '' @ [CHR 0x27, CHR 0x5C] @ ''0''
                 @ [CHR 0x27] @ [CHR 0x22] @ ''):'' @ [CHR 0x0A, CHR 0x09]
                 @ ''Invalid error code!'' @ [CHR 0x0A]]"
    by (simp add: SensorError_ctor_stderr CEPTON_RUNTIME_ASSERT_def throw_runtime_assert_def
        Let_def)
  from 1 2 3 4 5 6 show ?thesis by blast
qed

theorem ctor_invalid_code_witness:
  "get_error_code_name example_sdk 7 = []
   \<and> defects [] (SensorError_ctor example_build example_sdk 7 ''x'' []) = 1
   \<and> \<not> terminated (SensorError_ctor example_build example_sdk 7 ''x'' [])
   \<and> terminated (SensorError_ctor strict_build example_sdk 7 ''x'' [])
   \<and> get_error_code_name example_sdk (- 8) \<noteq> []
   \<and> SensorError_ctor strict_build example_sdk (- 8) ''bad position'' [] = Returns [] unchecked_error"
proof -
  note t1 = ctor_invalid_code [of "[]" example_build example_sdk 7 "''x''"]
  note t2 = ctor_invalid_code [of "[]" strict_build example_sdk 7 "''x''"]
  note t3 = ctor_invalid_code [of "[]" strict_build example_sdk "- 8" "''bad position''"]
  have n7: "get_error_code_name example_sdk 7 = []"
    and n8: "get_error_code_name example_sdk (- 8) \<noteq> []"
    by (simp_all add: get_error_code_name_def example_sdk_def)
  have s: "CEPTON_ENABLE_EXCEPTIONS strict_build" "\<not> CEPTON_ENABLE_EXCEPTIONS example_build"
    by (simp_all add: strict_build_def example_build_def)
  have o: "\<lparr>what = c_str (create_message example_sdk (- 8) ''bad position''), m_code = - 8,
            m_msg = ''bad position'', m_used = Used_default\<rparr> = unchecked_error"
    by (simp add: unchecked_error_def create_message_def get_error_code_name_def example_sdk_def
        c_str_def NUL_def Used_default_def)
  from t1 n7 s have 1: "defects [] (SensorError_ctor example_build example_sdk 7 ''x'' []) = 1"
    "\<not> terminated (SensorError_ctor example_build example_sdk 7 ''x'' [])" by simp_all
  from t2 n7 s have 2: "terminated (SensorError_ctor strict_build example_sdk 7 ''x'' [])" by simp
  from t3 n8 o have 3:
    "SensorError_ctor strict_build example_sdk (- 8) ''bad position'' [] = Returns [] unchecked_error"
    by simp
  from n7 n8 1 2 3 show ?thesis by blast
qed

section \<open>Assignment to a SensorErrorWrapper\<close>

lemma c_str_no_NUL: "NUL \<notin> set s \<Longrightarrow> c_str s = s"
  by (auto simp: c_str_def takeWhile_eq_all_conv)

lemma SensorError_copy_assign_temp_eq:
  "SensorError_copy_assign_temp d tmp s =
     (s(d := (s d)\<lparr>what := what tmp, m_code := m_code tmp, m_msg := m_msg tmp\<rparr>),
      tmp\<lparr>m_used := \<lparr>used_value = True\<rparr>\<rparr>)"
  by (simp add: SensorError_copy_assign_temp_def Let_def Used_copy_assign_def)

lemma SensorErrorWrapper_assign_success:
  "m_code (s e) = 0 \<Longrightarrow>
   SensorErrorWrapper_assign b k w e s err =
     (case SensorError_ctor_default b k err of
        Terminated err1 \<Rightarrow> Terminated err1
      | Returns err1 tmp \<Rightarrow>
          Returns err1 ((s(e := set_used (s e)))
             (error w := ((s(e := set_used (s e))) (error w))
                \<lparr>what := [], m_code := 0, m_msg := []\<rparr>)))"
  apply (simp add: SensorErrorWrapper_assign_def operator_bool_eq SensorError_copy_assign_temp_eq
      split: exec.splits)
  apply (auto simp: SensorError_dtor_used SensorError_ctor_default_def SensorError_ctor_code_def
      CEPTON_SUCCESS_def create_message_def c_str_def dest!: SensorError_ctor_Returns)
  done

lemma SensorErrorWrapper_assign_failure:
  "m_code (s e) \<noteq> 0 \<Longrightarrow>
   SensorErrorWrapper_assign b k w e s err =
     (case SensorError_ctor b k (m_code (s e))
             (c_str (wcontext w @ [CHR 0x0A, CHR 0x09] @ m_msg (s e))) err of
        Terminated err1 \<Rightarrow> Terminated err1
      | Returns err1 tmp \<Rightarrow>
          Returns err1 ((s(e := set_used (s e)))
             (error w := ((s(e := set_used (s e))) (error w))
                \<lparr>what := what tmp, m_code := m_code (s e),
                 m_msg := c_str (wcontext w @ [CHR 0x0A, CHR 0x09] @ m_msg (s e))\<rparr>)))"
  apply (simp add: SensorErrorWrapper_assign_def operator_bool_eq msg_eq code_eq
      SensorError_copy_assign_temp_eq split: exec.splits)
  apply (auto simp: SensorError_dtor_used set_used_def dest!: SensorError_ctor_Returns)
  done

lemma SensorErrorWrapper_assign_terminated:
  "terminated (SensorErrorWrapper_assign b k w e s err) =
     (get_error_code_name k (m_code (s e)) = [] \<and> CEPTON_ENABLE_EXCEPTIONS b)"
proof (cases "m_code (s e) = 0")
  case True
  then show ?thesis
    by (simp add: SensorErrorWrapper_assign_success terminated_case_exec
        SensorError_ctor_default_def SensorError_ctor_code_def CEPTON_SUCCESS_def
        SensorError_ctor_terminated)
next
  case False
  then show ?thesis
    by (simp add: SensorErrorWrapper_assign_failure terminated_case_exec
        SensorError_ctor_terminated)
qed

lemma SensorErrorWrapper_assign_Returns:
  assumes "SensorErrorWrapper_assign b k w e s err = Returns err1 s1"
  shows "m_code (s1 (error w)) = m_code (s e)"
    and "m_msg (s1 (error w)) =
           (if m_code (s e) = 0 then []
            else c_str (wcontext w @ [CHR 0x0A, CHR 0x09] @ m_msg (s e)))"
    and "used_value (m_used (s1 e))"
proof -
  have "m_code (s1 (error w)) = m_code (s e)
      \<and> m_msg (s1 (error w)) =
           (if m_code (s e) = 0 then []
            else c_str (wcontext w @ [CHR 0x0A, CHR 0x09] @ m_msg (s e)))
      \<and> used_value (m_used (s1 e))"
  proof (cases "m_code (s e) = 0")
    case True
    with assms show ?thesis
      by (auto simp: SensorErrorWrapper_assign_success set_used_def split: exec.splits)
  next
    case False
    with assms show ?thesis
      by (auto simp: SensorErrorWrapper_assign_failure set_used_def split: exec.splits)
  qed
  then show "m_code (s1 (error w)) = m_code (s e)"
    and "m_msg (s1 (error w)) =
           (if m_code (s e) = 0 then []
            else c_str (wcontext w @ [CHR 0x0A, CHR 0x09] @ m_msg (s e)))"
    and "used_value (m_used (s1 e))"
    by simp_all
qed

lemma SensorErrorWrapper_assign_valid:
  assumes "get_error_code_name k (m_code (s e)) \<noteq> []"
  shows "\<exists>s1. SensorErrorWrapper_assign b k w e s err = Returns err s1"
proof (cases "m_code (s e) = 0")
  case True
  with assms show ?thesis
    by (simp add: SensorErrorWrapper_assign_success SensorError_ctor_default_def
        SensorError_ctor_code_def CEPTON_SUCCESS_def SensorError_ctor_valid)
next
  case False
  with assms show ?thesis
    by (simp add: SensorErrorWrapper_assign_failure SensorError_ctor_valid)
qed

text \<open>
  C6. Let the context of \<open>w\<close> and the message of the error \<open>e\<close> be free of NUL, as every
  string built from a C string is. \<open>w = e\<close> ends the process only when the code of \<open>e\<close>
  has no name and the build has \<open>CEPTON_ENABLE_EXCEPTIONS\<close>; when the code has a name
  it returns with nothing written. Whenever it returns: if the code of \<open>e\<close> was Success,
  the error of \<open>w\<close> is a Success with an empty message, whose destructor returns with
  nothing written; otherwise the error of \<open>w\<close> has the code of \<open>e\<close>, and its message is
  the context, a newline, a tab and the message that \<open>e\<close> had.
\<close>

theorem wrapper_assign_result:
  assumes "NUL \<notin> set (wcontext w)" and "NUL \<notin> set (m_msg (s e))"
  shows "terminated (SensorErrorWrapper_assign b k w e s err) =
           (get_error_code_name k (m_code (s e)) = [] \<and> CEPTON_ENABLE_EXCEPTIONS b)
       \<and> (get_error_code_name k (m_code (s e)) \<noteq> [] \<longrightarrow>
            (\<exists>s1. SensorErrorWrapper_assign b k w e s err = Returns err s1))
       \<and> (\<forall>err1 s1. SensorErrorWrapper_assign b k w e s err = Returns err1 s1 \<longrightarrow>
            (if m_code (s e) = CEPTON_SUCCESS
             then m_code (s1 (error w)) = CEPTON_SUCCESS \<and> m_msg (s1 (error w)) = []
                  \<and> (\<forall>b' err2. SensorError_dtor b' (s1 (error w)) err2 = Returns err2 ())
             else m_code (s1 (error w)) = m_code (s e)
                  \<and> m_msg (s1 (error w)) = wcontext w @ [CHR 0x0A, CHR 0x09] @ m_msg (s e)))"
proof -
  have n: "NUL \<notin> set (wcontext w @ [CHR 0x0A, CHR 0x09] @ m_msg (s e))"
    using assms by (simp add: NUL_def)
  have 3: "\<forall>err1 s1. SensorErrorWrapper_assign b k w e s err = Returns err1 s1 \<longrightarrow>
            (if m_code (s e) = CEPTON_SUCCESS
             then m_code (s1 (error w)) = CEPTON_SUCCESS \<and> m_msg (s1 (error w)) = []
                  \<and> (\<forall>b' err2. SensorError_dtor b' (s1 (error w)) err2 = Returns err2 ())
             else m_code (s1 (error w)) = m_code (s e)
                  \<and> m_msg (s1 (error w)) = wcontext w @ [CHR 0x0A, CHR 0x09] @ m_msg (s e))"
  proof (intro allI impI)
    fix err1 s1
    assume r: "SensorErrorWrapper_assign b k w e s err = Returns err1 s1"
    note c = SensorErrorWrapper_assign_Returns(1) [OF r]
    note m = SensorErrorWrapper_assign_Returns(2) [OF r]
    show "if m_code (s e) = CEPTON_SUCCESS
          then m_code (s1 (error w)) = CEPTON_SUCCESS \<and> m_msg (s1 (error w)) = []
               \<and> (\<forall>b' err2. SensorError_dtor b' (s1 (error w)) err2 = Returns err2 ())
          else m_code (s1 (error w)) = m_code (s e)
               \<and> m_msg (s1 (error w)) = wcontext w @ [CHR 0x0A, CHR 0x09] @ m_msg (s e)"
      using c m n by (simp add: CEPTON_SUCCESS_def SensorError_dtor_success c_str_no_NUL)
  qed
  note 1 = SensorErrorWrapper_assign_terminated [of b k w e s err]
  have 2: "get_error_code_name k (m_code (s e)) \<noteq> [] \<longrightarrow>
            (\<exists>s1. SensorErrorWrapper_assign b k w e s err = Returns err s1)"
    by (simp add: SensorErrorWrapper_assign_valid)
  from 1 2 3 show ?thesis by blast
qed

text \<open>
  C10. Whenever \<open>w = e\<close> returns, in either branch, the error \<open>e\<close> is marked as used and
  its destructor returns with nothing written. It fails to return only when the code
  of \<open>e\<close> has no name and the build has \<open>CEPTON_ENABLE_EXCEPTIONS\<close>.
\<close>

theorem wrapper_assign_acknowledges_source:
  "terminated (SensorErrorWrapper_assign b k w e s err) =
     (get_error_code_name k (m_code (s e)) = [] \<and> CEPTON_ENABLE_EXCEPTIONS b)
   \<and> (get_error_code_name k (m_code (s e)) \<noteq> [] \<longrightarrow>
        (\<exists>s1. SensorErrorWrapper_assign b k w e s err = Returns err s1))
   \<and> (\<forall>err1 s1. SensorErrorWrapper_assign b k w e s err = Returns err1 s1 \<longrightarrow>
        used_value (m_used (s1 e)) \<and> SensorError_dtor b (s1 e) err1 = Returns err1 ())"
proof -
  note 1 = SensorErrorWrapper_assign_terminated [of b k w e s err]
  have 2: "get_error_code_name k (m_code (s e)) \<noteq> [] \<longrightarrow>
            (\<exists>s1. SensorErrorWrapper_assign b k w e s err = Returns err s1)"
    by (simp add: SensorErrorWrapper_assign_valid)
  have 3: "\<forall>err1 s1. SensorErrorWrapper_assign b k w e s err = Returns err1 s1 \<longrightarrow>
        used_value (m_used (s1 e)) \<and> SensorError_dtor b (s1 e) err1 = Returns err1 ()"
    by (auto dest: SensorErrorWrapper_assign_Returns(3) simp: SensorError_dtor_used)
  from 1 2 3 show ?thesis by blast
qed

theorem wrapper_assign_result_witness:
  "NUL \<notin> set (wcontext example_wrapper) \<and> NUL \<notin> set (m_msg (example_store 0))
   \<and> NUL \<notin> set (m_msg (example_store 2))
   \<and> (\<exists>s1. SensorErrorWrapper_assign strict_build example_sdk example_wrapper 0
               example_store [] = Returns [] s1
          \<and> m_code (s1 (error example_wrapper)) = - 8
          \<and> m_msg (s1 (error example_wrapper)) = ''replay'' @ [CHR 0x0A, CHR 0x09] @ ''bad position'')
   \<and> (\<exists>s1. SensorErrorWrapper_assign strict_build example_sdk example_wrapper 2
               example_store [] = Returns [] s1
          \<and> m_code (s1 (error example_wrapper)) = 0
          \<and> SensorError_dtor strict_build (s1 (error example_wrapper)) [] = Returns [] ())"
proof -
  have h: "NUL \<notin> set (wcontext example_wrapper)"
    by (simp add: example_wrapper_def NUL_def)
  have h0: "NUL \<notin> set (m_msg (example_store 0))"
    by (simp add: example_store_def unchecked_error_def NUL_def)
  have h2: "NUL \<notin> set (m_msg (example_store 2))"
    by (simp add: example_store_def success_error_def)
  note t0 = wrapper_assign_result [where w = example_wrapper and s = example_store and e = 0
      and b = strict_build and k = example_sdk and err = "[]", OF h h0]
  note t2 = wrapper_assign_result [where w = example_wrapper and s = example_store and e = 2
      and b = strict_build and k = example_sdk and err = "[]", OF h h2]
  have c0: "m_code (example_store 0) = - 8" and m0: "m_msg (example_store 0) = ''bad position''"
    by (simp_all add: example_store_def unchecked_error_def)
  have c2: "m_code (example_store 2) = 0"
    by (simp add: example_store_def success_error_def)
  have n0: "get_error_code_name example_sdk (m_code (example_store 0)) \<noteq> []"
    and n2: "get_error_code_name example_sdk (m_code (example_store 2)) \<noteq> []"
    by (simp_all add: c0 c2 get_error_code_name_def example_sdk_def)
  have w: "wcontext example_wrapper = ''replay''"
    by (simp add: example_wrapper_def)
  from t0 n0 obtain s0 where r0:
    "SensorErrorWrapper_assign strict_build example_sdk example_wrapper 0 example_store []
       = Returns [] s0"
    by blast
  with t0 have "if m_code (example_store 0) = CEPTON_SUCCESS
      then m_code (s0 (error example_wrapper)) = CEPTON_SUCCESS
           \<and> m_msg (s0 (error example_wrapper)) = []
           \<and> (\<forall>b' err2. SensorError_dtor b' (s0 (error example_wrapper)) err2 = Returns err2 ())
      else m_code (s0 (error example_wrapper)) = m_code (example_store 0)
           \<and> m_msg (s0 (error example_wrapper)) =
               wcontext example_wrapper @ [CHR 0x0A, CHR 0x09] @ m_msg (example_store 0)"
    by blast
  with c0 m0 w have p0: "m_code (s0 (error example_wrapper)) = - 8
      \<and> m_msg (s0 (error example_wrapper)) = ''replay'' @ [CHR 0x0A, CHR 0x09] @ ''bad position''"
    by (simp add: CEPTON_SUCCESS_def)
  from t2 n2 obtain s2 where r2:
    "SensorErrorWrapper_assign strict_build example_sdk example_wrapper 2 example_store []
       = Returns [] s2"
    by blast
  with t2 have "if m_code (example_store 2) = CEPTON_SUCCESS
      then m_code (s2 (error example_wrapper)) = CEPTON_SUCCESS
           \<and> m_msg (s2 (error example_wrapper)) = []
           \<and> (\<forall>b' err2. SensorError_dtor b' (s2 (error example_wrapper)) err2 = Returns err2 ())
      else m_code (s2 (error example_wrapper)) = m_code (example_store 2)
           \<and> m_msg (s2 (error example_wrapper)) =
               wcontext example_wrapper @ [CHR 0x0A, CHR 0x09] @ m_msg (example_store 2)"
    by blast
  with c2 have p2: "m_code (s2 (error example_wrapper)) = 0
      \<and> SensorError_dtor strict_build (s2 (error example_wrapper)) [] = Returns [] ()"
    by (simp add: CEPTON_SUCCESS_def)
  from h h0 h2 r0 p0 r2 p2 show ?thesis by blast
qed

theorem wrapper_assign_acknowledges_source_witness:
  "\<not> used_value (m_used (example_store 0))
   \<and> (\<exists>s1. SensorErrorWrapper_assign strict_build example_sdk example_wrapper 0
               example_store [] = Returns [] s1
          \<and> used_value (m_used (s1 0))
          \<and> SensorError_dtor strict_build (s1 0) [] = Returns [] ())
   \<and> (\<exists>s1. SensorErrorWrapper_assign strict_build example_sdk example_wrapper 2
               example_store [] = Returns [] s1
          \<and> used_value (m_used (s1 2))
          \<and> SensorError_dtor strict_build (s1 2) [] = Returns [] ())"
proof -
  note t0 = wrapper_assign_acknowledges_source [of strict_build example_sdk example_wrapper 0
      example_store "[]"]
  note t2 = wrapper_assign_acknowledges_source [of strict_build example_sdk example_wrapper 2
      example_store "[]"]
  have u: "\<not> used_value (m_used (example_store 0))"
    by (simp add: example_store_def unchecked_error_def)
  have n0: "get_error_code_name example_sdk (m_code (example_store 0)) \<noteq> []"
    and n2: "get_error_code_name example_sdk (m_code (example_store 2)) \<noteq> []"
    by (simp_all add: example_store_def unchecked_error_def success_error_def
        get_error_code_name_def example_sdk_def)
  from t0 n0 obtain s0 where r0:
    "SensorErrorWrapper_assign strict_build example_sdk example_wrapper 0 example_store []
       = Returns [] s0"
    by blast
  with t0 have p0: "used_value (m_used (s0 0))
      \<and> SensorError_dtor strict_build (s0 0) [] = Returns [] ()"
    by blast
  from t2 n2 obtain s2 where r2:
    "SensorErrorWrapper_assign strict_build example_sdk example_wrapper 2 example_store []
       = Returns [] s2"
    by blast
  with t2 have p2: "used_value (m_used (s2 2))
      \<and> SensorError_dtor strict_build (s2 2) [] = Returns [] ()"
    by blast
  from u r0 p0 r2 p2 show ?thesis by blast
qed

section \<open>Capture time\<close>

lemma dyadic_nonneg_exp: "0 \<le> e \<Longrightarrow> dyadic m e = of_int (m * 2 ^ nat e)"
  by (simp add: dyadic_def power_int_def)

lemma dyadic_neg_exp: "e < 0 \<Longrightarrow> dyadic m e = of_int m / of_int (2 ^ nat (- e))"
  by (simp add: dyadic_def power_int_def field_simps)

lemma trunc_dyadic_floor: "0 \<le> m \<Longrightarrow> trunc_dyadic m e = \<lfloor>dyadic m e\<rfloor>"
proof (cases "0 \<le> e")
  case True
  then show ?thesis
    by (simp only: trunc_dyadic_def dyadic_nonneg_exp floor_of_int if_True)
next
  case False
  assume "0 \<le> m"
  with False show ?thesis
    by (simp add: trunc_dyadic_def dyadic_neg_exp floor_divide_of_int_eq sgn_if del: of_int_power)
qed

lemma uint64_of_float_floor:
  assumes "0 \<le> n" and "dyadic n f < 2 ^ 64"
  shows "uint64_of_float (Finite n f) = Some (word_of_int \<lfloor>dyadic n f\<rfloor>)"
proof -
  from assms(1) have t: "trunc_dyadic n f = \<lfloor>dyadic n f\<rfloor>"
    by (rule trunc_dyadic_floor)
  from assms(1) have "0 \<le> dyadic n f"
    by (simp add: dyadic_def)
  then have lo: "0 \<le> \<lfloor>dyadic n f\<rfloor>"
    by simp
  have "\<lfloor>dyadic n f\<rfloor> < 2 ^ 64"
    using assms(2) by (simp add: floor_less_iff)
  with lo t show ?thesis
    by (simp add: Let_def)
qed

text \<open>
  C7, amended. When the position is a finite float and the single-precision product
  \<open>1e6f * position\<close> is a finite float that is not negative and is below \<open>2^64\<close>,
  \<open>get_time\<close> returns the start time plus that product with its fractional part
  discarded (not rounded to the nearest integer), the sum being taken modulo
  \<open>2^64\<close>.
\<close>

theorem get_time_truncates:
  assumes "get_position api d = Finite m e"
    and "f32_mul (Finite 1000000 0) (Finite m e) = Finite n f"
    and "0 \<le> n" and "dyadic n f < 2 ^ 64"
  shows "get_time api d = Some (get_start_time api d + word_of_int \<lfloor>dyadic n f\<rfloor>)
       \<and> (\<exists>t. get_time api d = Some t
             \<and> unat t = (unat (get_start_time api d) + nat \<lfloor>dyadic n f\<rfloor>) mod 2 ^ 64)"
proof -
  have g: "get_time api d = Some (get_start_time api d + word_of_int \<lfloor>dyadic n f\<rfloor>)"
    using assms(3,4) by (simp only: get_time_def assms(1,2) uint64_of_float_floor option.case)
  from assms(3) have "0 \<le> dyadic n f"
    by (simp add: dyadic_def)
  then have lo: "0 \<le> \<lfloor>dyadic n f\<rfloor>"
    by simp
  have hi: "\<lfloor>dyadic n f\<rfloor> < 2 ^ 64"
    using assms(4) by (simp add: floor_less_iff)
  have "unat (word_of_int \<lfloor>dyadic n f\<rfloor> :: 64 word) = nat \<lfloor>dyadic n f\<rfloor>"
    using lo hi by (simp add: unat_eq_nat_uint uint_word_of_int take_bit_eq_mod)
  then have "unat (get_start_time api d + word_of_int \<lfloor>dyadic n f\<rfloor>) =
      (unat (get_start_time api d) + nat \<lfloor>dyadic n f\<rfloor>) mod 2 ^ 64"
    by (simp add: unat_word_ariths)
  with g show ?thesis by simp
qed

lemma offset_product:
  "f32_mul (Finite 1000000 0) (Finite 1048577 (- 20)) = Finite 16000015 (- 4)"
  by (simp add: f32_round_def Let_def compute_bitlen)

lemma floor_offset: "\<lfloor>dyadic 16000015 (- 4)\<rfloor> = 1000000"
  by (simp add: dyadic_neg_exp)

lemma round_offset: "round (float_value (Finite 1048577 (- 20)) * 1000000) = 1000001"
  by (rule round_unique) (simp_all add: dyadic_neg_exp)

text \<open>
  C7, as stated, fails. At the position \<open>1 + 2^-20\<close> seconds the product
  \<open>1e6f * position\<close> is the float 1000000.9375, which the conversion to \<open>uint64_t\<close>
  cuts to 1000000, so \<open>get_time\<close> is the start time plus 1000000; the formula of the
  specification rounds to 1000001.
\<close>

theorem get_time_rounds_counterexample:
  "get_time session_driver offset_session = Some 1600000001000000
   \<and> spec_get_time (get_start_time session_driver offset_session)
        (float_value (get_position session_driver offset_session)) = 1600000001000001
   \<and> spec_get_time (get_start_time session_driver offset_session)
        (float_value (get_position session_driver offset_session))
       \<noteq> 1600000001000000"
proof -
  have p: "get_position session_driver offset_session = Finite 1048577 (- 20)"
    by (simp add: get_position_def session_driver_def offset_session_def)
  have s: "get_start_time session_driver offset_session = 1600000000000000"
    by (simp add: get_start_time_def session_driver_def offset_session_def example_session_def)
  have u: "uint64_of_float (Finite 16000015 (- 4)) = Some 1000000"
    by (simp add: trunc_dyadic_def)
  have 1: "get_time session_driver offset_session = Some 1600000001000000"
    by (simp only: get_time_def p s offset_product u option.case) simp
  have 2: "spec_get_time (get_start_time session_driver offset_session)
        (float_value (get_position session_driver offset_session)) = 1600000001000001"
    by (simp only: spec_get_time_def p s round_offset) simp
  have 3: "(1600000001000001 :: 64 word) \<noteq> 1600000001000000"
    by simp
  from 1 2 3 show ?thesis by simp
qed

theorem get_time_truncates_witness:
  "get_position session_driver offset_session = Finite 1048577 (- 20)
   \<and> f32_mul (Finite 1000000 0) (Finite 1048577 (- 20)) = Finite 16000015 (- 4)
   \<and> (0::int) \<le> 16000015 \<and> dyadic 16000015 (- 4) < 2 ^ 64
   \<and> get_time session_driver offset_session = Some (1600000000000000 + 1000000)"
proof -
  have p: "get_position session_driver offset_session = Finite 1048577 (- 20)"
    by (simp add: get_position_def session_driver_def offset_session_def)
  have s: "get_start_time session_driver offset_session = 1600000000000000"
    by (simp add: get_start_time_def session_driver_def offset_session_def example_session_def)
  have z: "(0::int) \<le> 16000015" by simp
  have b: "dyadic 16000015 (- 4) < 2 ^ 64"
    by (simp add: dyadic_neg_exp)
  note t = get_time_truncates [OF p offset_product z b]
  from t have "get_time session_driver offset_session =
      Some (get_start_time session_driver offset_session + word_of_int \<lfloor>dyadic 16000015 (- 4)\<rfloor>)"
    by blast
  then have "get_time session_driver offset_session = Some (1600000000000000 + 1000000)"
    by (simp only: s floor_offset) simp
  with p offset_product z b show ?thesis by blast
qed

section \<open>Relative seek\<close>

lemma f32_add_commute: "f32_add x y = f32_add y x"
  by (cases x; cases y) (auto simp: min.commute add.commute)

text \<open>
  C8. \<open>seek_relative\<close> with \<open>delta\<close> is \<open>seek\<close> to the float sum of the position read
  at the start of the call and \<open>delta\<close>: the same calls reach the driver with the same
  argument, so the returned error, the state the driver is left in and the error
  stream are the same, for every driver and so for every rule by which it accepts or
  refuses a position.
\<close>

theorem seek_relative_is_seek:
  "seek_relative b k api delta d err = seek b k api (f32_add (get_position api d) delta) d err"
  by (simp add: seek_relative_def seek_def Let_def f32_add_commute)

theorem seek_relative_is_seek_witness:
  "seek_relative strict_build example_sdk session_driver (Finite 5 (- 1)) example_session [] =
     Returns [] (success_error, example_session\<lparr>replay_position := Finite 15 (- 1)\<rparr>)
   \<and> seek strict_build example_sdk session_driver (Finite 15 (- 1)) example_session [] =
     Returns [] (success_error, example_session\<lparr>replay_position := Finite 15 (- 1)\<rparr>)
   \<and> seek_relative strict_build example_sdk session_driver (Finite 5 0) example_session [] =
     Returns [] (unchecked_error, example_session)
   \<and> seek strict_build example_sdk session_driver (Finite 10 0) example_session [] =
     Returns [] (unchecked_error, example_session)"
proof -
  note t1 = seek_relative_is_seek [of strict_build example_sdk session_driver "Finite 5 (- 1)"
      example_session "[]"]
  note t2 = seek_relative_is_seek [of strict_build example_sdk session_driver "Finite 5 0"
      example_session "[]"]
  have p: "get_position session_driver example_session = Finite 5 0"
    by (simp add: get_position_def session_driver_def example_session_def)
  have a1: "f32_add (Finite 5 0) (Finite 5 (- 1)) = Finite 15 (- 1)"
    by (simp add: f32_round_def Let_def compute_bitlen)
  have a2: "f32_add (Finite 5 0) (Finite 5 0) = Finite 10 0"
    by (simp add: f32_round_def Let_def compute_bitlen)
  have s1: "seek strict_build example_sdk session_driver (Finite 15 (- 1)) example_session [] =
     Returns [] (success_error, example_session\<lparr>replay_position := Finite 15 (- 1)\<rparr>)"
    by (simp add: seek_def get_error_def session_driver_def session_seek_def example_session_def
        SensorError_ctor_def CEPTON_RUNTIME_ASSERT_def get_error_code_name_def example_sdk_def
        create_message_def c_str_def success_error_def Used_default_def)
  have s2: "seek strict_build example_sdk session_driver (Finite 10 0) example_session [] =
     Returns [] (unchecked_error, example_session)"
    by (simp add: seek_def get_error_def session_driver_def session_seek_def example_session_def
        SensorError_ctor_def CEPTON_RUNTIME_ASSERT_def get_error_code_name_def example_sdk_def
        create_message_def c_str_def NUL_def unchecked_error_def Used_default_def)
  from t1 p a1 s1 have r1:
    "seek_relative strict_build example_sdk session_driver (Finite 5 (- 1)) example_session [] =
     Returns [] (success_error, example_session\<lparr>replay_position := Finite 15 (- 1)\<rparr>)"
    by simp
  from t2 p a2 s2 have r2:
    "seek_relative strict_build example_sdk session_driver (Finite 5 0) example_session [] =
     Returns [] (unchecked_error, example_session)"
    by simp
  from r1 s1 r2 s2 show ?thesis by blast
qed

end
